theory Spec2Isabelle
  imports Complex_Main "HOL-Library.Sublist"
begin

section \<open>Regular expressions, as the two processors use them\<close>

text \<open>
  Both files match with Python's \<^verbatim>\<open>re.search\<close>. Python strings are modelled as
  \<^typ>\<open>string\<close>: lists of characters with code points below 256. The patterns of the
  source use literals, alternation, one capture group and the repetitions \<^verbatim>\<open>+\<close> and
  \<^verbatim>\<open>*\<close> of a single character set; \<^verbatim>\<open>rx\<close> has exactly these forms.
\<close>

datatype cset =
    NoneOf string   \<comment> \<open>\<^verbatim>\<open>[^...]\<close>\<close>
  | Digit           \<comment> \<open>\<^verbatim>\<open>\d\<close>: among the code points below 256 the decimal digits are 0 to 9\<close>
  | Dot             \<comment> \<open>\<^verbatim>\<open>.\<close> without flags: anything but a newline\<close>

fun cset_mem :: "cset \<Rightarrow> char \<Rightarrow> bool" where
  "cset_mem (NoneOf cs) c = (c \<notin> set cs)"
| "cset_mem Digit c = (c \<in> set ''0123456789'')"
| "cset_mem Dot c = (c \<noteq> CHR 0x0A)"

datatype rx =
    Lit string
  | Alt rx rx
  | Seq rx rx
  | Plus cset
  | Star cset
  | Group rx

text \<open>
  \<open>rmatch p s\<close> lists, in the order in which a backtracking matcher tries them, the ways
  \<open>p\<close> matches a prefix of \<open>s\<close>: each is the text of the capture group (if the group took
  part) and the rest of the input. Alternatives are tried left to right and repetitions
  are greedy, so the longest repetition comes first.
\<close>

definition later_group :: "string option \<Rightarrow> string option \<Rightarrow> string option" where
  "later_group g g' = (case g' of None \<Rightarrow> g | Some x \<Rightarrow> Some x)"

primrec rmatch :: "rx \<Rightarrow> string \<Rightarrow> (string option \<times> string) list" where
  "rmatch (Lit l) s = (if prefix l s then [(None, drop (length l) s)] else [])"
| "rmatch (Alt a b) s = rmatch a s @ rmatch b s"
| "rmatch (Seq a b) s =
     concat (map (\<lambda>(g, r). map (\<lambda>(g', r'). (later_group g g', r')) (rmatch b r)) (rmatch a s))"
| "rmatch (Plus cs) s =
     map (\<lambda>n. (None, drop n s)) (rev [1 ..< Suc (length (takeWhile (cset_mem cs) s))])"
| "rmatch (Star cs) s =
     map (\<lambda>n. (None, drop n s)) (rev [0 ..< Suc (length (takeWhile (cset_mem cs) s))])"
| "rmatch (Group a) s =
     map (\<lambda>(g, r). (Some (take (length s - length r) s), r)) (rmatch a s)"

text \<open>
  \<^verbatim>\<open>re.search(pattern, s)\<close> tries every start position from the left, the end of the
  string included, and keeps the first match. The result is \<open>None\<close> when nothing matches,
  and otherwise \<^verbatim>\<open>match.group(1)\<close>, itself \<open>None\<close> when the group took no part.
\<close>

primrec re_search :: "rx \<Rightarrow> string \<Rightarrow> string option option" where
  "re_search p [] = (case rmatch p [] of [] \<Rightarrow> None | (g, r) # _ \<Rightarrow> Some g)"
| "re_search p (x # t) =
     (case rmatch p (x # t) of [] \<Rightarrow> re_search p t | (g, r) # _ \<Rightarrow> Some g)"

section \<open>Extracting the video id\<close>

definition id_chars :: cset where
  "id_chars = NoneOf [CHR ''&'', CHR 0x0A, CHR ''?'', CHR ''#'']"

text \<open>\<^verbatim>\<open>(?:youtube\.com\/watch\?v=|youtu\.be\/|youtube\.com\/embed\/)([^&\n?#]+)\<close>, the
  first pattern of both files.\<close>

definition pattern_main :: rx where
  "pattern_main =
     Seq (Alt (Lit ''youtube.com/watch?v='') (Alt (Lit ''youtu.be/'') (Lit ''youtube.com/embed/'')))
         (Group (Plus id_chars))"

text \<open>\<^verbatim>\<open>youtube\.com\/watch\?.*v=([^&\n?#]+)\<close>, the second pattern of
  \<^verbatim>\<open>scripts/youtube_processor.py\<close>.\<close>

definition pattern_watch_any :: rx where
  "pattern_watch_any =
     Seq (Lit ''youtube.com/watch?'') (Seq (Star Dot) (Seq (Lit ''v='') (Group (Plus id_chars))))"

text \<open>\<^verbatim>\<open>youtube\.com\/v\/([^&\n?#]+)\<close>, the second pattern of
  \<^verbatim>\<open>src/youtube-processor.py\<close>.\<close>

definition pattern_v :: rx where
  "pattern_v = Seq (Lit ''youtube.com/v/'') (Group (Plus id_chars))"

text \<open>The loop \<^verbatim>\<open>for pattern in patterns\<close>: the first pattern that matches decides.\<close>

fun first_match :: "rx list \<Rightarrow> string \<Rightarrow> string option" where
  "first_match [] url = None"
| "first_match (p # ps) url =
     (case re_search p url of Some g \<Rightarrow> g | None \<Rightarrow> first_match ps url)"

text \<open>\<^verbatim>\<open>extract_video_id\<close> of \<^verbatim>\<open>scripts/youtube_processor.py\<close>.\<close>

definition cli_extract_video_id :: "string \<Rightarrow> string option" where
  "cli_extract_video_id url = first_match [pattern_main, pattern_watch_any] url"

text \<open>\<^verbatim>\<open>YouTubeProcessor.extract_video_id\<close> of \<^verbatim>\<open>src/youtube-processor.py\<close>.\<close>

definition extract_video_id :: "string \<Rightarrow> string option" where
  "extract_video_id url = first_match [pattern_main, pattern_v] url"

section \<open>The command-line script \<^verbatim>\<open>scripts/youtube_processor.py\<close>\<close>

text \<open>
  An exception is modelled by its class and the reason it carries. The full text of
  \<^verbatim>\<open>str(e)\<close>, which for some exceptions also quotes the offending input, is not modelled.
\<close>

datatype exn =
    ValueError string
  | UnicodeDecodeError string
  | ParseError string
  | RequestException string

text \<open>
  A Python dictionary with string keys whose values are strings or \<^verbatim>\<open>None\<close>, in insertion
  order.
\<close>

type_synonym pydict = "(string \<times> string option) list"

subsection \<open>\<^verbatim>\<open>urllib.parse\<close>, as far as \<^verbatim>\<open>get_video_info\<close> uses it\<close>

text \<open>
  \<^verbatim>\<open>urlparse(url).query\<close> follows \<^verbatim>\<open>urlsplit\<close> of CPython 3.11: leading control characters
  and spaces are stripped, tabs and line breaks removed, a scheme is split off, the network
  location is cut at the first of \<^verbatim>\<open>/?#\<close> and its brackets are checked, then fragment and
  query are separated. Two parts of the library are parameters: \<open>chk\<close> is the validation of
  a bracketed host (\<^verbatim>\<open>_check_bracketed_host\<close>, which parses IP addresses) and returns the
  message of the \<^verbatim>\<open>ValueError\<close> it raises, if any; \<open>unq\<close> is \<^verbatim>\<open>unquote_plus\<close>. The check
  \<^verbatim>\<open>_checknetloc\<close> never raises on code points below 256 and is left out.
\<close>

definition scheme_chars :: string where
  "scheme_chars = ''abcdefghijklmnopqrstuvwxyzABCDEFGHIJKLMNOPQRSTUVWXYZ0123456789+-.''"

definition ascii_alpha :: "char \<Rightarrow> bool" where
  "ascii_alpha c = (c \<in> set ''abcdefghijklmnopqrstuvwxyzABCDEFGHIJKLMNOPQRSTUVWXYZ'')"

definition strip_scheme :: "string \<Rightarrow> string" where
  "strip_scheme url =
     (let pre = takeWhile (\<lambda>c. c \<noteq> CHR '':'') url in
      if CHR '':'' \<in> set url \<and> pre \<noteq> [] \<and> (case url of [] \<Rightarrow> False | c # _ \<Rightarrow> ascii_alpha c)
         \<and> list_all (\<lambda>c. c \<in> set scheme_chars) pre
      then drop (Suc (length pre)) url else url)"

definition query_of :: "string \<Rightarrow> string" where
  "query_of rest =
     (let u = takeWhile (\<lambda>c. c \<noteq> CHR ''#'') rest in
      if CHR ''?'' \<in> set u then drop 1 (dropWhile (\<lambda>c. c \<noteq> CHR ''?'') u) else [])"

definition urlparse_query :: "(string \<Rightarrow> string option) \<Rightarrow> string \<Rightarrow> exn + string" where
  "urlparse_query chk url =
     (let url1 = dropWhile (\<lambda>c. (of_char c :: nat) \<le> 32) url;
          url2 = filter (\<lambda>c. c \<notin> {CHR 0x09, CHR 0x0D, CHR 0x0A}) url1;
          url3 = strip_scheme url2
      in if take 2 url3 = ''//'' then
           (let netloc = takeWhile (\<lambda>c. c \<notin> set ''/?#'') (drop 2 url3);
                rest = dropWhile (\<lambda>c. c \<notin> set ''/?#'') (drop 2 url3)
            in if (CHR ''['' \<in> set netloc \<and> CHR '']'' \<notin> set netloc)
                  \<or> (CHR '']'' \<in> set netloc \<and> CHR ''['' \<notin> set netloc)
               then Inl (ValueError ''Invalid IPv6 URL'')
               else if CHR ''['' \<in> set netloc \<and> CHR '']'' \<in> set netloc then
                 (case chk (takeWhile (\<lambda>c. c \<noteq> CHR '']'')
                              (drop 1 (dropWhile (\<lambda>c. c \<noteq> CHR ''['') netloc))) of
                    Some msg \<Rightarrow> Inl (ValueError msg)
                  | None \<Rightarrow> Inr (query_of rest))
               else Inr (query_of rest))
         else Inr (query_of url3))"

text \<open>\<^verbatim>\<open>str.split(sep)\<close> for a separator of one character.\<close>

fun split_on :: "char \<Rightarrow> string \<Rightarrow> string list" where
  "split_on sep [] = [[]]"
| "split_on sep (c # s) =
     (if c = sep then [] # split_on sep s
      else (case split_on sep s of [] \<Rightarrow> [[c]] | w # ws \<Rightarrow> (c # w) # ws))"

text \<open>
  \<^verbatim>\<open>parse_qsl(qs)\<close> with its defaults: fields are separated by \<^verbatim>\<open>&\<close>, a field is cut at
  its first \<^verbatim>\<open>=\<close>, and fields with an empty value are dropped.
\<close>

definition parse_qsl :: "(string \<Rightarrow> string) \<Rightarrow> string \<Rightarrow> (string \<times> string) list" where
  "parse_qsl unq qs =
     (if qs = [] then []
      else concat (map (\<lambda>name_value.
             if name_value \<noteq> [] then
               (let name = takeWhile (\<lambda>c. c \<noteq> CHR ''='') name_value;
                    val = drop 1 (dropWhile (\<lambda>c. c \<noteq> CHR ''='') name_value)
                in if val \<noteq> [] then [(unq name, unq val)] else [])
             else [])
           (split_on CHR ''&'' qs)))"

subsection \<open>The functions of the script\<close>

text \<open>
  \<^verbatim>\<open>get_video_info\<close> has no \<^verbatim>\<open>try\<close>: an exception of \<^verbatim>\<open>urlparse\<close> leaves the function
  (\<open>Inl\<close>). \<^verbatim>\<open>parse_qs(...).get('t', [None])[0]\<close> is the first value of the first field named
  \<^verbatim>\<open>t\<close>.
\<close>

definition cli_get_video_info ::
  "(string \<Rightarrow> string option) \<Rightarrow> (string \<Rightarrow> string) \<Rightarrow> string \<Rightarrow> exn + pydict" where
  "cli_get_video_info chk unq url =
     (case cli_extract_video_id url of
        None \<Rightarrow> Inr [(''error'', Some ''Invalid YouTube URL'')]
      | Some video_id \<Rightarrow>
          if video_id = [] then Inr [(''error'', Some ''Invalid YouTube URL'')]
          else (case urlparse_query chk url of
                  Inl e \<Rightarrow> Inl e
                | Inr query \<Rightarrow>
                    Inr [(''video_id'', Some video_id),
                         (''url'', Some url),
                         (''timestamp'', map_of (parse_qsl unq query) ''t''),
                         (''title'', Some (''YouTube Video '' @ video_id)),
                         (''description'', Some ''Video processing available'')]))"

definition get_transcript_placeholder :: "string \<Rightarrow> pydict" where
  "get_transcript_placeholder video_id =
     [(''video_id'', Some video_id),
      (''transcript'', Some ''Transcript extraction requires youtube-transcript-api library''),
      (''language'', Some ''auto''),
      (''note'', Some ''Use fetch MCP to get video page content for now'')]"

text \<open>
  What \<^verbatim>\<open>main\<close> writes to standard output: \<^verbatim>\<open>json.dumps(d)\<close> or
  \<^verbatim>\<open>json.dumps(d, indent=2)\<close> of a dictionary, one per \<^verbatim>\<open>print\<close>. A run of the script either
  returns from \<^verbatim>\<open>main\<close>, and the process exits with status 0, or ends in an uncaught
  exception, and the interpreter prints a traceback and exits with status 1.
\<close>

datatype printed = Compact pydict | Indented pydict

datatype run = Returned "printed list" | Uncaught exn

fun exit_status :: "run \<Rightarrow> int" where
  "exit_status (Returned out) = 0"
| "exit_status (Uncaught e) = 1"

definition cli_main ::
  "(string \<Rightarrow> string option) \<Rightarrow> (string \<Rightarrow> string) \<Rightarrow> string list \<Rightarrow> run" where
  "cli_main chk unq argv =
     (if length argv < 2 then Returned [Compact [(''error'', Some ''Please provide YouTube URL'')]]
      else
        (let url = argv ! 1;
             action = (if length argv > 2 then argv ! 2 else ''info'')
         in if action = ''info'' then
              (case cli_get_video_info chk unq url of
                 Inl e \<Rightarrow> Uncaught e
               | Inr result \<Rightarrow> Returned [Indented result])
            else if action = ''transcript'' then
              (case cli_extract_video_id url of
                 None \<Rightarrow> Returned [Indented [(''error'', Some ''Invalid URL'')]]
               | Some video_id \<Rightarrow>
                   if video_id = [] then Returned [Indented [(''error'', Some ''Invalid URL'')]]
                   else Returned [Indented (get_transcript_placeholder video_id)])
            else Returned [Indented [(''error'', Some ''Unknown action'')]]))"

section \<open>The class \<^verbatim>\<open>YouTubeProcessor\<close> of \<^verbatim>\<open>src/youtube-processor.py\<close>\<close>

text \<open>
  \<^verbatim>\<open>self.session.get(url)\<close> is the parameter \<open>session_get\<close>: it raises (\<open>Inl\<close>) or delivers a
  response with its status code and its decoded body (\<^verbatim>\<open>response.text\<close>).
\<close>

datatype response = Response (status_code: int) (body: string)

text \<open>
  A dictionary \<^verbatim>\<open>{"error": ...}\<close> returned by the class: the literal text of the source and,
  where the source appends \<^verbatim>\<open>str(e)\<close>, the exception.
\<close>

datatype error_result = ErrorResult string "exn option"

subsection \<open>\<^verbatim>\<open>title.encode().decode('unicode_escape')\<close>\<close>

text \<open>\<^verbatim>\<open>str.encode()\<close> is UTF-8: a code point from 128 to 255 becomes two bytes.\<close>

definition py_encode :: "string \<Rightarrow> string" where
  "py_encode s =
     concat (map (\<lambda>c. if (of_char c :: nat) < 128 then [c]
                       else [char_of (192 + (of_char c :: nat) div 64),
                             char_of (128 + (of_char c :: nat) mod 64)]) s)"

definition hex_val :: "char \<Rightarrow> nat option" where
  "hex_val c =
     (if c \<in> set ''0123456789'' then Some (of_char c - 48)
      else if c \<in> set ''abcdef'' then Some (of_char c - 87)
      else if c \<in> set ''ABCDEF'' then Some (of_char c - 55)
      else None)"

fun hex_digits :: "nat \<Rightarrow> string \<Rightarrow> nat option" where
  "hex_digits acc [] = Some acc"
| "hex_digits acc (c # s) =
     (case hex_val c of None \<Rightarrow> None | Some v \<Rightarrow> hex_digits (16 * acc + v) s)"

text \<open>
  An escape yields the code points it stands for and the number of bytes it takes after
  its letter, or the reason of the \<^verbatim>\<open>UnicodeDecodeError\<close>.
\<close>

definition hex_escape :: "nat \<Rightarrow> string \<Rightarrow> string \<Rightarrow> exn + nat list \<times> nat" where
  "hex_escape count letters s =
     (if length s < count
      then Inl (UnicodeDecodeError (''truncated '' @ [CHR 0x5C] @ letters @ '' escape''))
      else (case hex_digits 0 (take count s) of
              None \<Rightarrow> Inl (UnicodeDecodeError (''truncated '' @ [CHR 0x5C] @ letters @ '' escape''))
            | Some ch \<Rightarrow>
                if ch > 0x10FFFF then Inl (UnicodeDecodeError ''illegal Unicode character'')
                else Inr ([ch], count)))"

definition octal_escape :: "string \<Rightarrow> nat list \<times> nat" where
  "octal_escape s =
     (let ds = takeWhile (\<lambda>c. c \<in> set ''01234567'') (take 3 s)
      in ([foldl (\<lambda>a c. 8 * a + (of_char c - 48)) 0 ds], length ds - 1))"

text \<open>
  \<^verbatim>\<open>\N{name}\<close> looks the name up in the Unicode database, the parameter \<open>ucd\<close>.
\<close>

definition named_escape :: "(string \<Rightarrow> nat option) \<Rightarrow> string \<Rightarrow> exn + nat list \<times> nat" where
  "named_escape ucd s =
     (case s of
        [] \<Rightarrow> Inl (UnicodeDecodeError (''malformed '' @ [CHR 0x5C] @ ''N character escape''))
      | b # rest \<Rightarrow>
          if b = CHR ''{'' \<and> CHR ''}'' \<in> set rest \<and> takeWhile (\<lambda>c. c \<noteq> CHR ''}'') rest \<noteq> []
          then (case ucd (takeWhile (\<lambda>c. c \<noteq> CHR ''}'') rest) of
                  None \<Rightarrow> Inl (UnicodeDecodeError ''unknown Unicode character name'')
                | Some ch \<Rightarrow>
                    if ch < 0x110000
                    then Inr ([ch], length (takeWhile (\<lambda>c. c \<noteq> CHR ''}'') rest) + 2)
                    else Inl (UnicodeDecodeError ''unknown Unicode character name''))
          else Inl (UnicodeDecodeError (''malformed '' @ [CHR 0x5C] @ ''N character escape'')))"

definition decode_escape ::
  "(string \<Rightarrow> nat option) \<Rightarrow> char \<Rightarrow> string \<Rightarrow> exn + nat list \<times> nat" where
  "decode_escape ucd c t =
     (if c = CHR 0x0A then Inr ([], 0)
      else if c = CHR 0x5C then Inr ([0x5C], 0)
      else if c = CHR 0x27 then Inr ([0x27], 0)
      else if c = CHR 0x22 then Inr ([0x22], 0)
      else if c = CHR ''b'' then Inr ([8], 0)
      else if c = CHR ''f'' then Inr ([12], 0)
      else if c = CHR ''t'' then Inr ([9], 0)
      else if c = CHR ''n'' then Inr ([10], 0)
      else if c = CHR ''r'' then Inr ([13], 0)
      else if c = CHR ''v'' then Inr ([11], 0)
      else if c = CHR ''a'' then Inr ([7], 0)
      else if c \<in> set ''01234567'' then Inr (octal_escape (c # t))
      else if c = CHR ''x'' then hex_escape 2 ''xXX'' t
      else if c = CHR ''u'' then hex_escape 4 ''uXXXX'' t
      else if c = CHR ''U'' then hex_escape 8 ''UXXXXXXXX'' t
      else if c = CHR ''N'' then named_escape ucd t
      else Inr ([0x5C, of_char c], 0))"

text \<open>
  The codec \<^verbatim>\<open>unicode_escape\<close> with strict errors: a byte other than a backslash stands
  for the code point of its value, an escape for what it denotes, an unknown escape for
  itself; a truncated or malformed escape raises.
\<close>

fun unicode_escape_decode :: "(string \<Rightarrow> nat option) \<Rightarrow> string \<Rightarrow> exn + nat list" where
  "unicode_escape_decode ucd [] = Inr []"
| "unicode_escape_decode ucd [c] =
     (if c = CHR 0x5C then Inl (UnicodeDecodeError ([CHR 0x5C] @ '' at end of string''))
      else Inr [of_char c])"
| "unicode_escape_decode ucd (c # e # t) =
     (if c = CHR 0x5C then
        (case decode_escape ucd e t of
           Inl x \<Rightarrow> Inl x
         | Inr (out, n) \<Rightarrow>
             (case unicode_escape_decode ucd (drop n t) of
                Inl x \<Rightarrow> Inl x
              | Inr out' \<Rightarrow> Inr (out @ out')))
      else (case unicode_escape_decode ucd (e # t) of
              Inl x \<Rightarrow> Inl x
            | Inr out' \<Rightarrow> Inr (of_char c # out')))"

subsection \<open>\<^verbatim>\<open>get_video_info\<close>\<close>

text \<open>
  The three patterns \<^verbatim>\<open>"title":"([^"]+)"\<close>, \<^verbatim>\<open>"shortDescription":"([^"]+)"\<close> and
  \<^verbatim>\<open>"lengthSeconds":"(\d+)"\<close>.
\<close>

definition title_pattern :: rx where
  \<open>title_pattern = Seq (Lit ''"title":"'') (Seq (Group (Plus (NoneOf ''"''))) (Lit ''"''))\<close>

definition description_pattern :: rx where
  \<open>description_pattern =
     Seq (Lit ''"shortDescription":"'') (Seq (Group (Plus (NoneOf ''"''))) (Lit ''"''))\<close>

definition duration_pattern :: rx where
  \<open>duration_pattern = Seq (Lit ''"lengthSeconds":"'') (Seq (Group (Plus Digit)) (Lit ''"''))\<close>

text \<open>
  \<^verbatim>\<open>m.group(1) if m else default\<close>. The group of each of the three patterns takes part in
  every match.
\<close>

definition group_or :: "string \<Rightarrow> string option option \<Rightarrow> string" where
  "group_or dflt m = (case m of Some (Some g) \<Rightarrow> g | _ \<Rightarrow> dflt)"

text \<open>
  \<^verbatim>\<open>int(s)\<close> on a string of decimal digits. CPython refuses a string of more digits than
  its limit \<open>maxd\<close> (\<^verbatim>\<open>sys.get_int_max_str_digits()\<close>, by default 4300; 0 switches the check
  off), and never checks a string of at most 640 digits.
\<close>

definition py_int :: "nat \<Rightarrow> string \<Rightarrow> exn + nat" where
  "py_int maxd ds =
     (if 0 < maxd \<and> 640 < length ds \<and> maxd < length ds
      then Inl (ValueError ''Exceeds the limit for integer string conversion'')
      else Inr (foldl (\<lambda>a c. 10 * a + (of_char c - 48)) 0 ds))"

text \<open>
  The dictionary of a successful \<^verbatim>\<open>get_video_info\<close>. Title and description are decoded
  text: lists of code points, which an escape can take beyond 255.
\<close>

record video_info =
  info_video_id :: string
  info_title :: "nat list"
  info_description :: "nat list"
  info_duration :: nat
  info_url :: string
  info_thumbnail :: string

text \<open>
  The body of the \<^verbatim>\<open>try\<close>: the request, the three searches and the conversion of the
  duration, and then, while the dictionary is built, the decoding of title and description.
  Any exception leaves it (\<open>Inl\<close>). The status code is not looked at.
\<close>

definition video_info_try ::
  "(string \<Rightarrow> nat option) \<Rightarrow> nat \<Rightarrow> (string \<Rightarrow> exn + response) \<Rightarrow> string \<Rightarrow> string
     \<Rightarrow> exn + video_info" where
  "video_info_try ucd maxd session_get url video_id =
     (case session_get (''https://www.youtube.com/watch?v='' @ video_id) of
        Inl e \<Rightarrow> Inl e
      | Inr resp \<Rightarrow>
          (let html = body resp;
               title = group_or ''Unknown Title'' (re_search title_pattern html);
               description = group_or ''No description'' (re_search description_pattern html)
           in case (case re_search duration_pattern html of
                      Some (Some ds) \<Rightarrow> py_int maxd ds
                    | _ \<Rightarrow> Inr 0) of
                Inl e \<Rightarrow> Inl e
              | Inr duration \<Rightarrow>
                  (case unicode_escape_decode ucd (py_encode title) of
                     Inl e \<Rightarrow> Inl e
                   | Inr t \<Rightarrow>
                       (case unicode_escape_decode ucd (py_encode description) of
                          Inl e \<Rightarrow> Inl e
                        | Inr d \<Rightarrow>
                            Inr \<lparr>info_video_id = video_id,
                                 info_title = t,
                                 info_description = d,
                                 info_duration = duration,
                                 info_url = url,
                                 info_thumbnail =
                                   ''https://img.youtube.com/vi/'' @ video_id @ ''/maxresdefault.jpg''\<rparr>))))"

definition get_video_info ::
  "(string \<Rightarrow> nat option) \<Rightarrow> nat \<Rightarrow> (string \<Rightarrow> exn + response) \<Rightarrow> string
     \<Rightarrow> error_result + video_info" where
  "get_video_info ucd maxd session_get url =
     (case extract_video_id url of
        None \<Rightarrow> Inl (ErrorResult ''Invalid YouTube URL'' None)
      | Some video_id \<Rightarrow>
          if video_id = [] then Inl (ErrorResult ''Invalid YouTube URL'' None)
          else (case video_info_try ucd maxd session_get url video_id of
                  Inl e \<Rightarrow> Inl (ErrorResult ''Failed to get video info: '' (Some e))
                | Inr info \<Rightarrow> Inr info))"

subsection \<open>Strings and numbers of the transcript\<close>

text \<open>\<^verbatim>\<open>str.isspace\<close> on the code points below 256, and \<^verbatim>\<open>str.strip()\<close>.\<close>

definition is_space :: "char \<Rightarrow> bool" where
  "is_space c = ((of_char c :: nat) \<in> {9, 10, 11, 12, 13, 28, 29, 30, 31, 32, 133, 160})"

definition py_strip :: "string \<Rightarrow> string" where
  "py_strip s = rev (dropWhile is_space (rev (dropWhile is_space s)))"

text \<open>
  \<^verbatim>\<open>re.sub(pat, rep, s)\<close> for a pattern and a replacement without special characters, as
  in \<^verbatim>\<open>re.sub(r'&amp;', '&', text)\<close>: every occurrence of the non-empty text \<open>pat\<close>, found
  from the left and not overlapping, is replaced.
\<close>

function replace_all :: "string \<Rightarrow> string \<Rightarrow> string \<Rightarrow> string" where
  "replace_all pat rep [] = []"
| "replace_all pat rep (c # s) =
     (if pat \<noteq> [] \<and> prefix pat (c # s)
      then rep @ replace_all pat rep (drop (length pat) (c # s))
      else c # replace_all pat rep s)"
  by pat_completeness auto
termination
  by (relation "measure (\<lambda>(pat, rep, s). length s)") auto

text \<open>\<^verbatim>\<open>' '.join(parts)\<close>.\<close>

fun py_join :: "string \<Rightarrow> string list \<Rightarrow> string" where
  "py_join sep [] = []"
| "py_join sep [x] = x"
| "py_join sep (x # y # r) = x @ sep @ py_join sep (y # r)"

text \<open>
  A Python float is modelled by the number its literal denotes: the rounding to a binary
  floating-point number and the sign of zero are not modelled. \<open>1.5\<close> and \<open>2.0\<close> are
  floating-point numbers themselves.
\<close>

datatype pyfloat = Finite rat | Infinite bool | NaN

text \<open>
  The grammar of \<^verbatim>\<open>float(s)\<close>: a part of digits is a digit followed by digits, each
  with at most one underscore before it.
\<close>

fun digits_rest :: "string \<Rightarrow> string \<times> string" where
  "digits_rest [] = ([], [])"
| "digits_rest [c] = (if c \<in> set ''0123456789'' then ([c], []) else ([], [c]))"
| "digits_rest (c # d # s) =
     (if c \<in> set ''0123456789'' then (let (ds, r) = digits_rest (d # s) in (c # ds, r))
      else if c = CHR ''_'' \<and> d \<in> set ''0123456789''
      then (let (ds, r) = digits_rest s in (d # ds, r))
      else ([], c # d # s))"

definition digitpart :: "string \<Rightarrow> (string \<times> string) option" where
  "digitpart s =
     (case s of
        [] \<Rightarrow> None
      | c # t \<Rightarrow> if c \<in> set ''0123456789''
                 then (let (ds, r) = digits_rest t in Some (c # ds, r)) else None)"

definition digits_value :: "string \<Rightarrow> nat" where
  "digits_value ds = foldl (\<lambda>a c. 10 * a + (of_char c - 48)) 0 ds"

text \<open>The number: its integer digits, its fraction digits and what follows.\<close>

definition float_number :: "string \<Rightarrow> (string \<times> string \<times> string) option" where
  "float_number s =
     (case digitpart s of
        Some (ip, r) \<Rightarrow>
          (case r of
             [] \<Rightarrow> Some (ip, [], [])
           | c # r' \<Rightarrow>
               if c = CHR ''.'' then
                 (case digitpart r' of
                    Some (fp, r'') \<Rightarrow> Some (ip, fp, r'')
                  | None \<Rightarrow> Some (ip, [], r'))
               else Some (ip, [], r))
      | None \<Rightarrow>
          (case s of
             [] \<Rightarrow> None
           | c # r' \<Rightarrow>
               if c = CHR ''.'' then
                 (case digitpart r' of
                    Some (fp, r'') \<Rightarrow> Some ([], fp, r'')
                  | None \<Rightarrow> None)
               else None))"

definition take_sign :: "string \<Rightarrow> bool \<times> string" where
  "take_sign s =
     (case s of
        [] \<Rightarrow> (False, [])
      | c # r \<Rightarrow> if c = CHR ''+'' then (False, r) else if c = CHR ''-'' then (True, r)
                 else (False, s))"

text \<open>The exponent, up to the end of the text; no exponent is the exponent 0.\<close>

definition float_exponent :: "string \<Rightarrow> int option" where
  "float_exponent s =
     (case s of
        [] \<Rightarrow> Some 0
      | c # r \<Rightarrow>
          if c = CHR ''e'' \<or> c = CHR ''E'' then
            (let (neg, r') = take_sign r
             in case digitpart r' of
                  Some (ds, rest) \<Rightarrow>
                    if rest = [] then Some (if neg then - int (digits_value ds)
                                            else int (digits_value ds))
                    else None
                | None \<Rightarrow> None)
          else None)"

text \<open>Comparison with a word in lower and in upper case, letter by letter.\<close>

definition same_word :: "string \<Rightarrow> string \<Rightarrow> string \<Rightarrow> bool" where
  "same_word lower upper s =
     (length s = length lower
      \<and> list_all (\<lambda>(c, l, u). c = l \<or> c = u) (zip s (zip lower upper)))"

definition py_float :: "string \<Rightarrow> exn + pyfloat" where
  "py_float s =
     (let (neg, r) = take_sign (py_strip s)
      in if same_word ''inf'' ''INF'' r \<or> same_word ''infinity'' ''INFINITY'' r
         then Inr (Infinite neg)
         else if same_word ''nan'' ''NAN'' r then Inr NaN
         else (case float_number r of
                 None \<Rightarrow> Inl (ValueError ''could not convert string to float'')
               | Some (ip, fp, rest) \<Rightarrow>
                   (case float_exponent rest of
                      None \<Rightarrow> Inl (ValueError ''could not convert string to float'')
                    | Some e \<Rightarrow>
                        (let m = (if neg then - rat_of_nat (digits_value (ip @ fp))
                                  else rat_of_nat (digits_value (ip @ fp)));
                             x = e - int (length fp)
                         in Inr (Finite (if 0 \<le> x then m * 10 ^ nat x
                                         else m / 10 ^ nat (- x)))))))"

subsection \<open>XML, captions and transcript\<close>

text \<open>
  An element of \<^verbatim>\<open>xml.etree.ElementTree\<close>: its tag, its attributes, its text (the
  character data before its first child, \<^verbatim>\<open>None\<close> when there is none) and its children.
  The parser \<^verbatim>\<open>ET.fromstring\<close> is the parameter \<open>fromstring\<close>: it raises (\<open>Inl\<close>) or
  delivers the root element, with the entities of XML already resolved.
\<close>

datatype element =
  Element (tag: string) (attrib: "(string \<times> string) list") (etext: "string option")
    (children: "element list")

text \<open>\<^verbatim>\<open>elem.iter()\<close>: the element and everything below it, in document order.\<close>

fun iter_elements :: "element \<Rightarrow> element list" where
  "iter_elements (Element t a x cs) = Element t a x cs # concat (map iter_elements cs)"

text \<open>
  \<^verbatim>\<open>root.findall('.//name')\<close>: the elements of that tag below the root, in document
  order. The root itself is not among them.
\<close>

definition findall_below :: "string \<Rightarrow> element \<Rightarrow> element list" where
  "findall_below name doc =
     filter (\<lambda>e. tag e = name) (concat (map iter_elements (children doc)))"

record caption =
  cap_lang_code :: string
  cap_name :: string
  cap_url :: string

definition caption_of :: "string \<Rightarrow> element \<Rightarrow> caption" where
  "caption_of video_id track =
     (let lang_code = (case map_of (attrib track) ''lang_code'' of None \<Rightarrow> ''en'' | Some l \<Rightarrow> l);
          name = (case map_of (attrib track) ''name'' of None \<Rightarrow> lang_code | Some n \<Rightarrow> n)
      in \<lparr>cap_lang_code = lang_code,
          cap_name = name,
          cap_url = ''https://www.youtube.com/api/timedtext?lang='' @ lang_code @ ''&v='' @ video_id\<rparr>)"

text \<open>
  \<^verbatim>\<open>get_transcript_urls\<close>: whatever is raised inside the \<^verbatim>\<open>try\<close> is caught and printed,
  and the function goes on to \<^verbatim>\<open>return []\<close>, as it does after a status other than 200.
\<close>

definition get_transcript_urls ::
  "(string \<Rightarrow> exn + element) \<Rightarrow> (string \<Rightarrow> exn + response) \<Rightarrow> string \<Rightarrow> caption list" where
  "get_transcript_urls fromstring session_get video_id =
     (case session_get (''https://www.youtube.com/api/timedtext?type=list&v='' @ video_id) of
        Inl e \<Rightarrow> []
      | Inr resp \<Rightarrow>
          if status_code resp = 200 then
            (case fromstring (body resp) of
               Inl e \<Rightarrow> []
             | Inr doc \<Rightarrow> map (caption_of video_id) (findall_below ''track'' doc))
          else [])"

record segment =
  seg_start :: pyfloat
  seg_duration :: pyfloat
  seg_text :: string

record transcript =
  tr_video_id :: string
  tr_language :: string
  tr_transcript :: "segment list"
  tr_full_text :: string

text \<open>\<^verbatim>\<open>float(text_elem.get(key, 0))\<close>: the attribute as a float, or \<^verbatim>\<open>float(0)\<close>.\<close>

definition float_attrib :: "element \<Rightarrow> string \<Rightarrow> exn + pyfloat" where
  "float_attrib e key = (case map_of (attrib e) key of None \<Rightarrow> Inr (Finite 0) | Some v \<Rightarrow> py_float v)"

text \<open>The three substitutions of the loop, in the order of the source.\<close>

definition clean_up :: "string \<Rightarrow> string" where
  "clean_up t = replace_all ''&gt;'' ''>'' (replace_all ''&lt;'' ''<'' (replace_all ''&amp;'' ''&'' t))"

text \<open>One turn of the loop over the \<^verbatim>\<open>text\<close> elements; \<^verbatim>\<open>float\<close> may raise.\<close>

definition segment_of :: "element \<Rightarrow> exn + segment" where
  "segment_of e =
     (case float_attrib e ''start'' of
        Inl x \<Rightarrow> Inl x
      | Inr start_time \<Rightarrow>
          (case float_attrib e ''dur'' of
             Inl x \<Rightarrow> Inl x
           | Inr duration \<Rightarrow>
               Inr \<lparr>seg_start = start_time,
                    seg_duration = duration,
                    seg_text = py_strip (clean_up (case etext e of None \<Rightarrow> [] | Some t \<Rightarrow> t))\<rparr>))"

fun segments_of :: "element list \<Rightarrow> exn + segment list" where
  "segments_of [] = Inr []"
| "segments_of (e # es) =
     (case segment_of e of
        Inl x \<Rightarrow> Inl x
      | Inr sg \<Rightarrow> (case segments_of es of Inl x \<Rightarrow> Inl x | Inr sgs \<Rightarrow> Inr (sg # sgs)))"

text \<open>
  The body of the \<^verbatim>\<open>try\<close> of \<^verbatim>\<open>get_transcript\<close>. It returns a dictionary, which for a
  status other than 200 is the error dictionary of the \<^verbatim>\<open>else\<close> branch, or an exception
  leaves it.
\<close>

definition transcript_try ::
  "(string \<Rightarrow> exn + element) \<Rightarrow> (string \<Rightarrow> exn + response) \<Rightarrow> string \<Rightarrow> string
     \<Rightarrow> exn + (error_result + transcript)" where
  "transcript_try fromstring session_get video_id lang =
     (case session_get (''https://www.youtube.com/api/timedtext?lang='' @ lang @ ''&v='' @ video_id) of
        Inl e \<Rightarrow> Inl e
      | Inr resp \<Rightarrow>
          if status_code resp = 200 then
            (case fromstring (body resp) of
               Inl e \<Rightarrow> Inl e
             | Inr doc \<Rightarrow>
                 (case segments_of (findall_below ''text'' doc) of
                    Inl e \<Rightarrow> Inl e
                  | Inr transcript_parts \<Rightarrow>
                      Inr (Inr \<lparr>tr_video_id = video_id,
                                tr_language = lang,
                                tr_transcript = transcript_parts,
                                tr_full_text = py_join '' '' (map seg_text transcript_parts)\<rparr>)))
          else Inr (Inl (ErrorResult ''No transcript available for this video'' None)))"

definition get_transcript ::
  "(string \<Rightarrow> exn + element) \<Rightarrow> (string \<Rightarrow> exn + response) \<Rightarrow> string \<Rightarrow> string
     \<Rightarrow> error_result + transcript" where
  "get_transcript fromstring session_get url lang =
     (case extract_video_id url of
        None \<Rightarrow> Inl (ErrorResult ''Invalid YouTube URL'' None)
      | Some video_id \<Rightarrow>
          if video_id = [] then Inl (ErrorResult ''Invalid YouTube URL'' None)
          else (case transcript_try fromstring session_get video_id lang of
                  Inl e \<Rightarrow> Inl (ErrorResult ''Failed to get transcript: '' (Some e))
                | Inr result \<Rightarrow> result))"

(*PROOFS*)
section \<open>Properties of the video id\<close>

lemma group_plus_capture:
  assumes "(g, r) \<in> set (rmatch (Group (Plus cs)) s)"
  shows "\<exists>x. g = Some x \<and> x \<noteq> []"
proof -
  from assms obtain n where n: "1 \<le> n" "n \<le> length (takeWhile (cset_mem cs) s)"
    and g: "g = Some (take (length s - length (drop n s)) s)"
    by auto
  have "length (takeWhile (cset_mem cs) s) \<le> length s"
    by (rule length_takeWhile_le)
  with n have "n \<le> length s" "s \<noteq> []" by auto
  then have "take (length s - length (drop n s)) s \<noteq> []"
    using n(1) by (cases s) auto
  with g show ?thesis by simp
qed

lemma seq_capture:
  assumes b: "\<And>t g r. (g, r) \<in> set (rmatch b t) \<Longrightarrow> \<exists>x. g = Some x \<and> x \<noteq> []"
    and m: "(g, r) \<in> set (rmatch (Seq a b) s)"
  shows "\<exists>x. g = Some x \<and> x \<noteq> []"
proof -
  from m obtain g0 r0 g' where "(g', r) \<in> set (rmatch b r0)" and g: "g = later_group g0 g'"
    by auto
  from b[OF this(1)] obtain x where "g' = Some x" "x \<noteq> []" by blast
  with g show ?thesis by (simp add: later_group_def)
qed

lemma re_search_found:
  "re_search p s = Some g \<Longrightarrow> \<exists>t r. (g, r) \<in> set (rmatch p t)"
proof (induction s)
  case Nil
  then obtain r xs where "rmatch p [] = (g, r) # xs"
    by (auto split: list.splits)
  then have "(g, r) \<in> set (rmatch p [])" by simp
  then show ?case by blast
next
  case (Cons x t)
  show ?case
  proof (cases "rmatch p (x # t)")
    case Nil
    with Cons show ?thesis by simp
  next
    case (Cons a list)
    with Cons.prems have "(g, snd a) \<in> set (rmatch p (x # t))"
      by (cases a) auto
    then show ?thesis by blast
  qed
qed

lemma pattern_main_capture:
  "(g, r) \<in> set (rmatch pattern_main s) \<Longrightarrow> \<exists>x. g = Some x \<and> x \<noteq> []"
  unfolding pattern_main_def by (rule seq_capture[OF group_plus_capture])

lemma pattern_v_capture:
  "(g, r) \<in> set (rmatch pattern_v s) \<Longrightarrow> \<exists>x. g = Some x \<and> x \<noteq> []"
  unfolding pattern_v_def by (rule seq_capture[OF group_plus_capture])

lemma pattern_watch_any_capture:
  "(g, r) \<in> set (rmatch pattern_watch_any s) \<Longrightarrow> \<exists>x. g = Some x \<and> x \<noteq> []"
  unfolding pattern_watch_any_def
  by (rule seq_capture[OF seq_capture[OF seq_capture[OF group_plus_capture]]])

lemma first_match_two:
  assumes p: "\<And>t g r. (g, r) \<in> set (rmatch p t) \<Longrightarrow> \<exists>x. g = Some x \<and> x \<noteq> []"
    and q: "\<And>t g r. (g, r) \<in> set (rmatch q t) \<Longrightarrow> \<exists>x. g = Some x \<and> x \<noteq> []"
  shows "first_match [p, q] url \<noteq> Some []"
proof
  assume e: "first_match [p, q] url = Some []"
  then have "re_search p url = Some (Some []) \<or> re_search q url = Some (Some [])"
    by (auto split: option.splits)
  then show False
    using re_search_found p q by (metis option.inject)
qed

lemma extract_video_id_not_empty: "extract_video_id url \<noteq> Some []"
  unfolding extract_video_id_def
  by (rule first_match_two) (erule pattern_main_capture, erule pattern_v_capture)

lemma cli_extract_video_id_not_empty: "cli_extract_video_id url \<noteq> Some []"
  unfolding cli_extract_video_id_def
  by (rule first_match_two) (erule pattern_main_capture, erule pattern_watch_any_capture)

text \<open>
  Claim C10. For every input string, both versions of \<^verbatim>\<open>extract_video_id\<close> return
  either no id or a non-empty one: the group \<^verbatim>\<open>[^&\n?#]+\<close> takes at least one character.
\<close>

theorem video_id_never_empty:
  "cli_extract_video_id url \<noteq> Some [] \<and> extract_video_id url \<noteq> Some []"
  by (simp add: cli_extract_video_id_not_empty extract_video_id_not_empty)

text \<open>
  Claim C9. There is a watch URL whose \<^verbatim>\<open>v=\<close> is not the first query parameter and
  from which the script still extracts the id: its first pattern finds nothing and its second
  pattern captures \<^verbatim>\<open>ID\<close>. The class version, which lacks that pattern, returns nothing.
\<close>

theorem cli_second_pattern_finds_later_v:
  "cli_extract_video_id ''https://www.youtube.com/watch?list=X&v=ID'' = Some ''ID''
   \<and> re_search pattern_main ''https://www.youtube.com/watch?list=X&v=ID'' = None
   \<and> re_search pattern_watch_any ''https://www.youtube.com/watch?list=X&v=ID'' = Some (Some ''ID'')
   \<and> extract_video_id ''https://www.youtube.com/watch?list=X&v=ID'' = None"
  by (simp add: cli_extract_video_id_def extract_video_id_def pattern_main_def
      pattern_watch_any_def pattern_v_def id_chars_def later_group_def)

section \<open>Errors and fallbacks\<close>

text \<open>
  Claim C5. \<^verbatim>\<open>get_transcript_urls\<close> returns a list for every input: the model has no
  exception leaving it. When the request raises, when the status is not 200 and when the
  parser raises, the list is empty; otherwise it holds one caption for each
  \<^verbatim>\<open>track\<close> element.
\<close>

theorem get_transcript_urls_never_fails:
  "(session_get (''https://www.youtube.com/api/timedtext?type=list&v='' @ video_id) = Inl e
      \<longrightarrow> get_transcript_urls fromstring session_get video_id = [])
   \<and> (session_get (''https://www.youtube.com/api/timedtext?type=list&v='' @ video_id) = Inr resp
        \<and> status_code resp \<noteq> 200
      \<longrightarrow> get_transcript_urls fromstring session_get video_id = [])
   \<and> (session_get (''https://www.youtube.com/api/timedtext?type=list&v='' @ video_id) = Inr resp
        \<and> fromstring (body resp) = Inl e'
      \<longrightarrow> get_transcript_urls fromstring session_get video_id = [])
   \<and> (session_get (''https://www.youtube.com/api/timedtext?type=list&v='' @ video_id) = Inr resp
        \<and> status_code resp = 200 \<and> fromstring (body resp) = Inr doc
      \<longrightarrow> get_transcript_urls fromstring session_get video_id
            = map (caption_of video_id) (findall_below ''track'' doc))"
  by (simp add: get_transcript_urls_def)

theorem get_transcript_urls_never_fails_witness:
  "get_transcript_urls (\<lambda>t. Inl (ParseError ''syntax error''))
       (\<lambda>u. Inl (RequestException ''connection refused'')) ''dQw4w9WgXcQ'' = []
   \<and> get_transcript_urls (\<lambda>t. Inl (ParseError ''syntax error''))
       (\<lambda>u. Inr (Response 404 ''Not Found'')) ''dQw4w9WgXcQ'' = []
   \<and> get_transcript_urls (\<lambda>t. Inl (ParseError ''syntax error''))
       (\<lambda>u. Inr (Response 200 ''<oops'')) ''dQw4w9WgXcQ'' = []
   \<and> get_transcript_urls (\<lambda>t. Inr (Element ''transcript_list'' [] None
                                       [Element ''track'' [(''lang_code'', ''th'')] None []]))
       (\<lambda>u. Inr (Response 200 ''<transcript_list/>'')) ''dQw4w9WgXcQ''
     = [\<lparr>cap_lang_code = ''th'', cap_name = ''th'',
         cap_url = ''https://www.youtube.com/api/timedtext?lang=th&v=dQw4w9WgXcQ''\<rparr>]"
proof (intro conjI)
  show "get_transcript_urls (\<lambda>t. Inl (ParseError ''syntax error''))
       (\<lambda>u. Inl (RequestException ''connection refused'')) ''dQw4w9WgXcQ'' = []"
    using get_transcript_urls_never_fails
      [of "\<lambda>u. Inl (RequestException ''connection refused'')" "''dQw4w9WgXcQ''"
          "RequestException ''connection refused''" "\<lambda>t. Inl (ParseError ''syntax error'')"]
    by simp
  show "get_transcript_urls (\<lambda>t. Inl (ParseError ''syntax error''))
       (\<lambda>u. Inr (Response 404 ''Not Found'')) ''dQw4w9WgXcQ'' = []"
    using get_transcript_urls_never_fails
      [of "\<lambda>u. Inr (Response 404 ''Not Found'')" "''dQw4w9WgXcQ''" _
          "\<lambda>t. Inl (ParseError ''syntax error'')" "Response 404 ''Not Found''"]
    by simp
  show "get_transcript_urls (\<lambda>t. Inl (ParseError ''syntax error''))
       (\<lambda>u. Inr (Response 200 ''<oops'')) ''dQw4w9WgXcQ'' = []"
    using get_transcript_urls_never_fails
      [of "\<lambda>u. Inr (Response 200 ''<oops'')" "''dQw4w9WgXcQ''" _
          "\<lambda>t. Inl (ParseError ''syntax error'')" "Response 200 ''<oops''" "ParseError ''syntax error''"]
    by simp
  show "get_transcript_urls (\<lambda>t. Inr (Element ''transcript_list'' [] None
                                       [Element ''track'' [(''lang_code'', ''th'')] None []]))
       (\<lambda>u. Inr (Response 200 ''<transcript_list/>'')) ''dQw4w9WgXcQ''
     = [\<lparr>cap_lang_code = ''th'', cap_name = ''th'',
         cap_url = ''https://www.youtube.com/api/timedtext?lang=th&v=dQw4w9WgXcQ''\<rparr>]"
    using get_transcript_urls_never_fails
      [of "\<lambda>u. Inr (Response 200 ''<transcript_list/>'')" "''dQw4w9WgXcQ''" _
          "\<lambda>t. Inr (Element ''transcript_list'' [] None
                                       [Element ''track'' [(''lang_code'', ''th'')] None []])"
          "Response 200 ''<transcript_list/>''" _
          "Element ''transcript_list'' [] None [Element ''track'' [(''lang_code'', ''th'')] None []]"]
    by (simp add: findall_below_def caption_of_def Let_def)
qed

text \<open>
  Claim C6. When the video id is found and the transcript request completes with a status
  other than 200, \<^verbatim>\<open>get_transcript\<close> returns the dictionary with the error
  \<^verbatim>\<open>No transcript available for this video\<close>. It is not the dictionary built from an
  exception, whose text starts differently, and nothing is raised.
\<close>

theorem non_200_is_no_transcript:
  assumes "extract_video_id url = Some video_id"
    and "session_get (''https://www.youtube.com/api/timedtext?lang='' @ lang @ ''&v='' @ video_id)
           = Inr resp"
    and "status_code resp \<noteq> 200"
  shows "get_transcript fromstring session_get url lang
           = Inl (ErrorResult ''No transcript available for this video'' None)
         \<and> get_transcript fromstring session_get url lang
           \<noteq> Inl (ErrorResult ''Failed to get transcript: '' (Some e))
         \<and> ''No transcript available for this video'' \<noteq> ''Failed to get transcript: '' @ msg"
proof -
  from assms(1) have "video_id \<noteq> []"
    using extract_video_id_not_empty[of url] by auto
  with assms show ?thesis
    by (simp add: get_transcript_def transcript_try_def)
qed

theorem non_200_is_no_transcript_witness:
  "get_transcript (\<lambda>t. Inl (ParseError ''syntax error'')) (\<lambda>u. Inr (Response 404 ''Not Found''))
       ''https://youtu.be/dQw4w9WgXcQ'' ''en''
     = Inl (ErrorResult ''No transcript available for this video'' None)"
proof -
  have "extract_video_id ''https://youtu.be/dQw4w9WgXcQ'' = Some ''dQw4w9WgXcQ''"
    by (simp add: extract_video_id_def pattern_main_def id_chars_def later_group_def)
  from non_200_is_no_transcript[OF this, of "\<lambda>u. Inr (Response 404 ''Not Found'')" "''en''"
      "Response 404 ''Not Found''"]
  show ?thesis by simp
qed

text \<open>
  Claim C8. With the action \<^verbatim>\<open>transcript\<close> and a URL that yields a video id, the script
  prints the placeholder dictionary: apart from the id, its fields are constants. The
  model of the script has no request to send: \<open>cli_main\<close> depends on the arguments and on
  the two library functions of URL parsing only.
\<close>

theorem transcript_action_placeholder:
  assumes "cli_extract_video_id url = Some video_id"
  shows "cli_main chk unq (prog # url # ''transcript'' # extra)
           = Returned [Indented
               [(''video_id'', Some video_id),
                (''transcript'', Some ''Transcript extraction requires youtube-transcript-api library''),
                (''language'', Some ''auto''),
                (''note'', Some ''Use fetch MCP to get video page content for now'')]]"
proof -
  from assms have "video_id \<noteq> []"
    using cli_extract_video_id_not_empty[of url] by auto
  with assms show ?thesis
    by (simp add: cli_main_def get_transcript_placeholder_def)
qed

theorem transcript_action_placeholder_witness:
  "cli_main (\<lambda>h. None) (\<lambda>s. s) [''youtube_processor.py'', ''https://youtu.be/dQw4w9WgXcQ'', ''transcript'']
     = Returned [Indented
               [(''video_id'', Some ''dQw4w9WgXcQ''),
                (''transcript'', Some ''Transcript extraction requires youtube-transcript-api library''),
                (''language'', Some ''auto''),
                (''note'', Some ''Use fetch MCP to get video page content for now'')]]"
proof -
  have "cli_extract_video_id ''https://youtu.be/dQw4w9WgXcQ'' = Some ''dQw4w9WgXcQ''"
    by (simp add: cli_extract_video_id_def pattern_main_def id_chars_def later_group_def)
  from transcript_action_placeholder[OF this, of "\<lambda>h. None" "\<lambda>s. s" "''youtube_processor.py''" "[]"]
  show ?thesis .
qed

text \<open>
  Claim C7 fails on the code. For the URL \<^verbatim>\<open>http://[youtu.be/abc\<close> and the default action
  the id \<^verbatim>\<open>abc\<close> is found, \<^verbatim>\<open>urlparse\<close> then raises \<^verbatim>\<open>ValueError\<close> for the unmatched
  bracket, and nothing catches it: no dictionary is printed and the exit status is 1.
\<close>

theorem cli_info_uncaught_value_error:
  "cli_main chk unq [''youtube_processor.py'', ''http://[youtu.be/abc'']
     = Uncaught (ValueError ''Invalid IPv6 URL'')
   \<and> exit_status (cli_main chk unq [''youtube_processor.py'', ''http://[youtu.be/abc'']) = 1"
  by (simp add: cli_main_def cli_get_video_info_def cli_extract_video_id_def pattern_main_def
      id_chars_def later_group_def urlparse_query_def strip_scheme_def scheme_chars_def
      ascii_alpha_def)

end
